theory Spec2Isabelle
  imports Main "HOL-Library.Char_ord"
begin

section \<open>Formulas of propositional logic\<close>

text \<open>
  \<^verbatim>\<open>propositions/operators.py\<close> converts propositional formulas into equivalent formulas
  over a restricted set of operators. A formula is an object with a string \<^verbatim>\<open>root\<close> and,
  depending on the arity of the root, the attributes \<^verbatim>\<open>first\<close> and \<^verbatim>\<open>second\<close>. The three
  shapes below are the three ways the class \<^verbatim>\<open>Formula\<close> can be instantiated:
  \<^verbatim>\<open>Formula(root)\<close>, \<^verbatim>\<open>Formula(root, first)\<close> and \<^verbatim>\<open>Formula(root, first, second)\<close>. The root stays
  a string, as in the code, so that a node whose label does not fit its shape can be
  written down and the converters' behaviour on it can be stated.
\<close>

datatype formula =
    Formula0 string
  | Formula1 string formula
  | Formula2 string formula formula

text \<open>
  What the converters can raise: reading \<^verbatim>\<open>formula.first\<close> or \<^verbatim>\<open>formula.second\<close> of a node
  that lacks the attribute, and the failure of the trailing \<^verbatim>\<open>assert\<close>.
\<close>

datatype error = AttributeError | AssertionError

subsection \<open>The classification of root labels\<close>

text \<open>
  Modelled from the spec: the classification predicates \<^verbatim>\<open>is_variable\<close>, \<^verbatim>\<open>is_constant\<close>,
  \<^verbatim>\<open>is_unary\<close> and \<^verbatim>\<open>is_binary\<close> come from \<^verbatim>\<open>propositions.syntax\<close>, which
  \<^verbatim>\<open>operators.py\<close> imports and which is not among the sources. The spec fixes the constants
  \<^verbatim>\<open>T\<close> and \<^verbatim>\<open>F\<close>, the unary operator \<^verbatim>\<open>~\<close> and the seven binary operators; a variable
  name is a letter from \<^verbatim>\<open>p\<close> to \<^verbatim>\<open>z\<close> followed by decimal digits, which makes the
  converters' default name \<^verbatim>\<open>p\<close> a variable and keeps variable names apart from every
  constant and operator. The empty string is no variable name here.
\<close>

definition is_digit :: "char \<Rightarrow> bool" where
  "is_digit c = (CHR ''0'' \<le> c \<and> c \<le> CHR ''9'')"

fun is_variable :: "string \<Rightarrow> bool" where
  "is_variable [] = False"
| "is_variable (c # cs) = (CHR ''p'' \<le> c \<and> c \<le> CHR ''z'' \<and> list_all is_digit cs)"

definition is_constant :: "string \<Rightarrow> bool" where
  "is_constant s = (s = ''T'' \<or> s = ''F'')"

definition is_unary :: "string \<Rightarrow> bool" where
  "is_unary s = (s = ''~'')"

definition is_binary :: "string \<Rightarrow> bool" where
  "is_binary s =
     (s = ''&'' \<or> s = ''|'' \<or> s = ''->'' \<or> s = ''+'' \<or> s = ''<->'' \<or> s = ''-&'' \<or> s = ''-|'')"

text \<open>
  Modelled from the spec: the constructor of \<^verbatim>\<open>Formula\<close> is in \<^verbatim>\<open>propositions.syntax\<close>. The
  invariant of the spec's data model: a variable or constant node has no children, a unary
  node has exactly one, a binary node exactly two.
\<close>

fun well_formed :: "formula \<Rightarrow> bool" where
  "well_formed (Formula0 r) = (is_variable r \<or> is_constant r)"
| "well_formed (Formula1 r a) = (is_unary r \<and> well_formed a)"
| "well_formed (Formula2 r a b) = (is_binary r \<and> well_formed a \<and> well_formed b)"

text \<open>
  Modelled from the spec: \<^verbatim>\<open>Formula.variables\<close> (in \<^verbatim>\<open>propositions.syntax\<close>) returns the set
  of the variable names that occur in the formula.
\<close>

fun variables :: "formula \<Rightarrow> string set" where
  "variables (Formula0 r) = (if is_variable r then {r} else {})"
| "variables (Formula1 r a) = variables a"
| "variables (Formula2 r a b) = variables a \<union> variables b"

text \<open>
  Modelled from the spec: \<^verbatim>\<open>Formula.operators\<close> (in \<^verbatim>\<open>propositions.syntax\<close>) returns the set
  of the operators of the formula, the constants \<^verbatim>\<open>T\<close> and \<^verbatim>\<open>F\<close> counted among them.
\<close>

fun operators :: "formula \<Rightarrow> string set" where
  "operators (Formula0 r) = (if is_constant r then {r} else {})"
| "operators (Formula1 r a) = insert r (operators a)"
| "operators (Formula2 r a b) = insert r (operators a \<union> operators b)"

text \<open>
  Modelled from the spec: \<^verbatim>\<open>evaluate\<close> (in \<^verbatim>\<open>propositions.semantics\<close>) gives the truth value
  of a formula in a model. The model is total here: one total assignment stands for an
  assignment to the variables of the formula together with an arbitrary extension to every
  other name. A binary label outside the grammar evaluates to \<open>False\<close>; no statement below
  depends on that branch.
\<close>

fun evaluate :: "formula \<Rightarrow> (string \<Rightarrow> bool) \<Rightarrow> bool" where
  "evaluate (Formula0 r) m = (if is_constant r then r = ''T'' else m r)"
| "evaluate (Formula1 r a) m = (\<not> evaluate a m)"
| "evaluate (Formula2 r a b) m =
     (if r = ''&'' then evaluate a m \<and> evaluate b m
      else if r = ''|'' then evaluate a m \<or> evaluate b m
      else if r = ''->'' then (evaluate a m \<longrightarrow> evaluate b m)
      else if r = ''+'' then evaluate a m \<noteq> evaluate b m
      else if r = ''<->'' then evaluate a m = evaluate b m
      else if r = ''-&'' then \<not> (evaluate a m \<and> evaluate b m)
      else if r = ''-|'' then \<not> (evaluate a m \<or> evaluate b m)
      else False)"

subsection \<open>Picking a variable name\<close>

text \<open>
  Every converter but the last starts with
  \<^verbatim>\<open>v = next(iter(formula.variables()), 'p')\<close>: the element that the iterator of the set
  yields first, or the default when the set is empty. Which element a Python set yields
  first is not fixed by the language, so the choice is a parameter \<open>nxt\<close> of the model and
  nothing is assumed about it.
\<close>

definition next_iter :: "(string set \<Rightarrow> string) \<Rightarrow> string set \<Rightarrow> string \<Rightarrow> string" where
  "next_iter nxt S d = (if S = {} then d else nxt S)"

section \<open>The converters\<close>

subsection \<open>\<^verbatim>\<open>to_not_and_or\<close>\<close>

fun to_not_and_or :: "(string set \<Rightarrow> string) \<Rightarrow> formula \<Rightarrow> error + formula" where
  "to_not_and_or nxt (Formula0 r) =
     (if is_variable r then Inr (Formula0 r)
      else let v = next_iter nxt (variables (Formula0 r)) ''p'' in
        if is_constant r then
          (if r = ''T'' then Inr (Formula2 ''|'' (Formula0 v) (Formula1 ''~'' (Formula0 v)))
           else Inr (Formula2 ''&'' (Formula0 v) (Formula1 ''~'' (Formula0 v))))
        else Inl AttributeError)"
| "to_not_and_or nxt (Formula1 r a) =
     (if is_variable r then Inr (Formula0 r)
      else let v = next_iter nxt (variables (Formula1 r a)) ''p'' in
        if is_constant r then
          (if r = ''T'' then Inr (Formula2 ''|'' (Formula0 v) (Formula1 ''~'' (Formula0 v)))
           else Inr (Formula2 ''&'' (Formula0 v) (Formula1 ''~'' (Formula0 v))))
        else if is_unary r then
          (case to_not_and_or nxt a of
             Inl e \<Rightarrow> Inl e
           | Inr x \<Rightarrow> Inr (Formula1 ''~'' x))
        else
          (case to_not_and_or nxt a of
             Inl e \<Rightarrow> Inl e
           | Inr first \<Rightarrow> Inl AttributeError))"
| "to_not_and_or nxt (Formula2 r a b) =
     (if is_variable r then Inr (Formula0 r)
      else let v = next_iter nxt (variables (Formula2 r a b)) ''p'' in
        if is_constant r then
          (if r = ''T'' then Inr (Formula2 ''|'' (Formula0 v) (Formula1 ''~'' (Formula0 v)))
           else Inr (Formula2 ''&'' (Formula0 v) (Formula1 ''~'' (Formula0 v))))
        else if is_unary r then
          (case to_not_and_or nxt a of
             Inl e \<Rightarrow> Inl e
           | Inr x \<Rightarrow> Inr (Formula1 ''~'' x))
        else
          (case to_not_and_or nxt a of
             Inl e \<Rightarrow> Inl e
           | Inr first \<Rightarrow>
          (case to_not_and_or nxt b of
             Inl e \<Rightarrow> Inl e
           | Inr second \<Rightarrow>
             if r = ''&'' then Inr (Formula2 ''&'' first second)
             else if r = ''|'' then Inr (Formula2 ''|'' first second)
             else if r = ''->'' then Inr (Formula2 ''|'' (Formula1 ''~'' first) second)
             else if r = ''+'' then
               (let left = Formula2 ''&'' first (Formula1 ''~'' second);
                    right = Formula2 ''&'' (Formula1 ''~'' first) second
                in Inr (Formula2 ''|'' left right))
             else if r = ''<->'' then
               (let left = Formula2 ''&'' first second;
                    right = Formula2 ''&'' (Formula1 ''~'' first) (Formula1 ''~'' second)
                in Inr (Formula2 ''|'' left right))
             else if r = ''-&'' then Inr (Formula1 ''~'' (Formula2 ''&'' first second))
             else if r = ''-|'' then Inr (Formula1 ''~'' (Formula2 ''|'' first second))
             else Inl AssertionError)))"

subsection \<open>\<^verbatim>\<open>to_not_and\<close>\<close>

fun to_not_and :: "(string set \<Rightarrow> string) \<Rightarrow> formula \<Rightarrow> error + formula" where
  "to_not_and nxt (Formula0 r) =
     (if is_variable r then Inr (Formula0 r)
      else let v = next_iter nxt (variables (Formula0 r)) ''p'' in
        if is_constant r then
          (if r = ''T'' then Inr (Formula1 ''~'' (Formula2 ''&'' (Formula0 v) (Formula1 ''~'' (Formula0 v))))
           else Inr (Formula2 ''&'' (Formula0 v) (Formula1 ''~'' (Formula0 v))))
        else Inl AttributeError)"
| "to_not_and nxt (Formula1 r a) =
     (if is_variable r then Inr (Formula0 r)
      else let v = next_iter nxt (variables (Formula1 r a)) ''p'' in
        if is_constant r then
          (if r = ''T'' then Inr (Formula1 ''~'' (Formula2 ''&'' (Formula0 v) (Formula1 ''~'' (Formula0 v))))
           else Inr (Formula2 ''&'' (Formula0 v) (Formula1 ''~'' (Formula0 v))))
        else if is_unary r then
          (case to_not_and nxt a of
             Inl e \<Rightarrow> Inl e
           | Inr x \<Rightarrow> Inr (Formula1 ''~'' x))
        else
          (case to_not_and nxt a of
             Inl e \<Rightarrow> Inl e
           | Inr first \<Rightarrow> Inl AttributeError))"
| "to_not_and nxt (Formula2 r a b) =
     (if is_variable r then Inr (Formula0 r)
      else let v = next_iter nxt (variables (Formula2 r a b)) ''p'' in
        if is_constant r then
          (if r = ''T'' then Inr (Formula1 ''~'' (Formula2 ''&'' (Formula0 v) (Formula1 ''~'' (Formula0 v))))
           else Inr (Formula2 ''&'' (Formula0 v) (Formula1 ''~'' (Formula0 v))))
        else if is_unary r then
          (case to_not_and nxt a of
             Inl e \<Rightarrow> Inl e
           | Inr x \<Rightarrow> Inr (Formula1 ''~'' x))
        else
          (case to_not_and nxt a of
             Inl e \<Rightarrow> Inl e
           | Inr first \<Rightarrow>
          (case to_not_and nxt b of
             Inl e \<Rightarrow> Inl e
           | Inr second \<Rightarrow>
             if r = ''&'' then Inr (Formula2 ''&'' first second)
             else if r = ''|'' then Inr (Formula1 ''~'' (Formula2 ''&'' (Formula1 ''~'' first) (Formula1 ''~'' second)))
             else if r = ''->'' then Inr (Formula1 ''~'' (Formula2 ''&'' first (Formula1 ''~'' second)))
             else if r = ''+'' then
               (let a_or_b = Formula1 ''~'' (Formula2 ''&'' (Formula1 ''~'' first) (Formula1 ''~'' second));
                    a_and_b = Formula2 ''&'' first second
                in Inr (Formula2 ''&'' a_or_b (Formula1 ''~'' a_and_b)))
             else if r = ''<->'' then
               (let a_and_b = Formula2 ''&'' first second;
                    na_and_nb = Formula2 ''&'' (Formula1 ''~'' first) (Formula1 ''~'' second)
                in Inr (Formula1 ''~'' (Formula2 ''&'' (Formula1 ''~'' a_and_b) (Formula1 ''~'' na_and_nb))))
             else if r = ''-&'' then Inr (Formula1 ''~'' (Formula2 ''&'' first second))
             else if r = ''-|'' then Inr (Formula2 ''&'' (Formula1 ''~'' first) (Formula1 ''~'' second))
             else Inl AssertionError)))"

subsection \<open>\<^verbatim>\<open>to_nand\<close>\<close>

text \<open>The local function \<^verbatim>\<open>nand\<close> of \<^verbatim>\<open>to_nand\<close>.\<close>

definition nand :: "formula \<Rightarrow> formula \<Rightarrow> formula" where
  "nand a b = Formula2 ''-&'' a b"

fun to_nand :: "(string set \<Rightarrow> string) \<Rightarrow> formula \<Rightarrow> error + formula" where
  "to_nand nxt (Formula0 r) =
     (if is_variable r then Inr (Formula0 r)
      else let v = next_iter nxt (variables (Formula0 r)) ''p'';
               t = nand (Formula0 v) (nand (Formula0 v) (Formula0 v));
               f = nand t t in
        if is_constant r then
          (if r = ''T'' then Inr t
           else Inr f)
        else Inl AttributeError)"
| "to_nand nxt (Formula1 r a) =
     (if is_variable r then Inr (Formula0 r)
      else let v = next_iter nxt (variables (Formula1 r a)) ''p'';
               t = nand (Formula0 v) (nand (Formula0 v) (Formula0 v));
               f = nand t t in
        if is_constant r then
          (if r = ''T'' then Inr t
           else Inr f)
        else if is_unary r then
          (case to_nand nxt a of
             Inl e \<Rightarrow> Inl e
           | Inr x \<Rightarrow> Inr (nand x x))
        else
          (case to_nand nxt a of
             Inl e \<Rightarrow> Inl e
           | Inr first \<Rightarrow> Inl AttributeError))"
| "to_nand nxt (Formula2 r a b) =
     (if is_variable r then Inr (Formula0 r)
      else let v = next_iter nxt (variables (Formula2 r a b)) ''p'';
               t = nand (Formula0 v) (nand (Formula0 v) (Formula0 v));
               f = nand t t in
        if is_constant r then
          (if r = ''T'' then Inr t
           else Inr f)
        else if is_unary r then
          (case to_nand nxt a of
             Inl e \<Rightarrow> Inl e
           | Inr x \<Rightarrow> Inr (nand x x))
        else
          (case to_nand nxt a of
             Inl e \<Rightarrow> Inl e
           | Inr first \<Rightarrow>
          (case to_nand nxt b of
             Inl e \<Rightarrow> Inl e
           | Inr second \<Rightarrow>
             if r = ''-&'' then Inr (nand first second)
             else if r = ''&'' then
               (let x = nand first second in Inr (nand x x))
             else if r = ''|'' then
               (let na = nand first first;
                    nb = nand second second
                in Inr (nand na nb))
             else if r = ''->'' then
               (let nb = nand second second in Inr (nand first nb))
             else if r = ''-|'' then
               (let na = nand first first;
                    nb = nand second second;
                    a_or_b = nand na nb
                in Inr (nand a_or_b a_or_b))
             else if r = ''+'' then
               (let na = nand first first;
                    nb = nand second second;
                    a_or_b = nand na nb;
                    a_and_b = nand (nand first second) (nand first second);
                    not_a_and_b = nand a_and_b a_and_b;
                    x = nand a_or_b not_a_and_b
                in Inr (nand x x))
             else if r = ''<->'' then
               (let na = nand first first;
                    nb = nand second second;
                    a_or_b = nand na nb;
                    a_and_b = nand (nand first second) (nand first second);
                    not_a_and_b = nand a_and_b a_and_b;
                    x = nand a_or_b not_a_and_b
                in Inr x)
             else Inl AssertionError)))"

subsection \<open>\<^verbatim>\<open>to_implies_not\<close>\<close>

text \<open>The local functions \<^verbatim>\<open>make_or\<close> and \<^verbatim>\<open>make_and\<close> of \<^verbatim>\<open>to_implies_not\<close>.\<close>

definition implies_not_make_or :: "formula \<Rightarrow> formula \<Rightarrow> formula" where
  "implies_not_make_or a b = Formula2 ''->'' (Formula1 ''~'' a) b"

definition implies_not_make_and :: "formula \<Rightarrow> formula \<Rightarrow> formula" where
  "implies_not_make_and a b = Formula1 ''~'' (Formula2 ''->'' a (Formula1 ''~'' b))"

fun to_implies_not :: "(string set \<Rightarrow> string) \<Rightarrow> formula \<Rightarrow> error + formula" where
  "to_implies_not nxt (Formula0 r) =
     (if is_variable r then Inr (Formula0 r)
      else let v = next_iter nxt (variables (Formula0 r)) ''p'';
               t = Formula2 ''->'' (Formula0 v) (Formula0 v) in
        if is_constant r then
          (if r = ''T'' then Inr t
           else Inr (Formula1 ''~'' t))
        else Inl AttributeError)"
| "to_implies_not nxt (Formula1 r a) =
     (if is_variable r then Inr (Formula0 r)
      else let v = next_iter nxt (variables (Formula1 r a)) ''p'';
               t = Formula2 ''->'' (Formula0 v) (Formula0 v) in
        if is_constant r then
          (if r = ''T'' then Inr t
           else Inr (Formula1 ''~'' t))
        else if is_unary r then
          (case to_implies_not nxt a of
             Inl e \<Rightarrow> Inl e
           | Inr x \<Rightarrow> Inr (Formula1 ''~'' x))
        else
          (case to_implies_not nxt a of
             Inl e \<Rightarrow> Inl e
           | Inr first \<Rightarrow> Inl AttributeError))"
| "to_implies_not nxt (Formula2 r a b) =
     (if is_variable r then Inr (Formula0 r)
      else let v = next_iter nxt (variables (Formula2 r a b)) ''p'';
               t = Formula2 ''->'' (Formula0 v) (Formula0 v) in
        if is_constant r then
          (if r = ''T'' then Inr t
           else Inr (Formula1 ''~'' t))
        else if is_unary r then
          (case to_implies_not nxt a of
             Inl e \<Rightarrow> Inl e
           | Inr x \<Rightarrow> Inr (Formula1 ''~'' x))
        else
          (case to_implies_not nxt a of
             Inl e \<Rightarrow> Inl e
           | Inr first \<Rightarrow>
          (case to_implies_not nxt b of
             Inl e \<Rightarrow> Inl e
           | Inr second \<Rightarrow>
             if r = ''->'' then Inr (Formula2 ''->'' first second)
             else if r = ''|'' then Inr (implies_not_make_or first second)
             else if r = ''&'' then Inr (implies_not_make_and first second)
             else if r = ''-&'' then Inr (Formula1 ''~'' (implies_not_make_and first second))
             else if r = ''-|'' then Inr (Formula1 ''~'' (implies_not_make_or first second))
             else if r = ''<->'' then Inr (implies_not_make_and (Formula2 ''->'' first second) (Formula2 ''->'' second first))
             else if r = ''+'' then
               (let a_or_b = implies_not_make_or first second;
                    a_and_b = implies_not_make_and first second
                in Inr (implies_not_make_and a_or_b (Formula1 ''~'' a_and_b)))
             else Inl AssertionError)))"

subsection \<open>\<^verbatim>\<open>to_implies_false\<close>\<close>

text \<open>
  The local functions \<^verbatim>\<open>make_not\<close>, \<^verbatim>\<open>make_or\<close> and \<^verbatim>\<open>make_and\<close> of \<^verbatim>\<open>to_implies_false\<close>.
  This converter computes no variable name: the basis has the constant \<^verbatim>\<open>F\<close>.
\<close>

definition make_not :: "formula \<Rightarrow> formula" where
  "make_not a = Formula2 ''->'' a (Formula0 ''F'')"

definition implies_false_make_or :: "formula \<Rightarrow> formula \<Rightarrow> formula" where
  "implies_false_make_or a b = Formula2 ''->'' (make_not a) b"

definition implies_false_make_and :: "formula \<Rightarrow> formula \<Rightarrow> formula" where
  "implies_false_make_and a b = make_not (Formula2 ''->'' a (make_not b))"

fun to_implies_false :: "formula \<Rightarrow> error + formula" where
  "to_implies_false (Formula0 r) =
     (if is_variable r then Inr (Formula0 r)
      else let t = Formula2 ''->'' (Formula0 ''F'') (Formula0 ''F'') in
        if is_constant r then
          (if r = ''T'' then Inr t
           else Inr (Formula0 ''F''))
        else Inl AttributeError)"
| "to_implies_false (Formula1 r a) =
     (if is_variable r then Inr (Formula0 r)
      else let t = Formula2 ''->'' (Formula0 ''F'') (Formula0 ''F'') in
        if is_constant r then
          (if r = ''T'' then Inr t
           else Inr (Formula0 ''F''))
        else if is_unary r then
          (case to_implies_false a of
             Inl e \<Rightarrow> Inl e
           | Inr x \<Rightarrow> Inr (make_not x))
        else
          (case to_implies_false a of
             Inl e \<Rightarrow> Inl e
           | Inr first \<Rightarrow> Inl AttributeError))"
| "to_implies_false (Formula2 r a b) =
     (if is_variable r then Inr (Formula0 r)
      else let t = Formula2 ''->'' (Formula0 ''F'') (Formula0 ''F'') in
        if is_constant r then
          (if r = ''T'' then Inr t
           else Inr (Formula0 ''F''))
        else if is_unary r then
          (case to_implies_false a of
             Inl e \<Rightarrow> Inl e
           | Inr x \<Rightarrow> Inr (make_not x))
        else
          (case to_implies_false a of
             Inl e \<Rightarrow> Inl e
           | Inr first \<Rightarrow>
          (case to_implies_false b of
             Inl e \<Rightarrow> Inl e
           | Inr second \<Rightarrow>
             if r = ''->'' then Inr (Formula2 ''->'' first second)
             else if r = ''|'' then Inr (implies_false_make_or first second)
             else if r = ''&'' then Inr (implies_false_make_and first second)
             else if r = ''-&'' then Inr (make_not (implies_false_make_and first second))
             else if r = ''-|'' then Inr (make_not (implies_false_make_or first second))
             else if r = ''<->'' then Inr (implies_false_make_and (Formula2 ''->'' first second) (Formula2 ''->'' second first))
             else if r = ''+'' then
               (let a_or_b = implies_false_make_or first second;
                    a_and_b = implies_false_make_and first second
                in Inr (implies_false_make_and a_or_b (make_not a_and_b)))
             else Inl AssertionError)))"

subsection \<open>Children of a node\<close>

text \<open>
  The strict subtrees one step below a node: \<^verbatim>\<open>formula.first\<close> of a unary node, \<^verbatim>\<open>formula.first\<close> and
  \<^verbatim>\<open>formula.second\<close> of a binary node. A node without children has none.
\<close>

fun child_of :: "formula \<Rightarrow> formula \<Rightarrow> bool" where
  "child_of c (Formula0 r) = False"
| "child_of c (Formula1 r a) = (c = a)"
| "child_of c (Formula2 r a b) = (c = a \<or> c = b)"

section \<open>Properties of the root labels\<close>

text \<open>
  The four classes of labels are pairwise disjoint, and the default name of the converters
  is a variable name.
\<close>

lemma is_variable_p: "is_variable ''p''"
  by (simp add: less_eq_char_def)

lemma is_binary_not_other:
  "is_binary r \<Longrightarrow> \<not> is_variable r \<and> \<not> is_constant r \<and> \<not> is_unary r"
  by (auto simp: is_constant_def is_unary_def is_binary_def less_eq_char_def)

lemma is_unary_not_other:
  "is_unary r \<Longrightarrow> \<not> is_variable r \<and> \<not> is_constant r"
  by (auto simp: is_constant_def is_unary_def less_eq_char_def)

lemma is_constant_not_variable:
  "is_constant r \<Longrightarrow> \<not> is_variable r"
  by (auto simp: is_constant_def less_eq_char_def)

lemma next_iter_empty: "next_iter nxt {} d = d"
  by (simp add: next_iter_def)

lemma is_binary_cases:
  assumes "is_binary r"
  obtains "r = ''&''" | "r = ''|''" | "r = ''->''" | "r = ''+''" | "r = ''<->''"
    | "r = ''-&''" | "r = ''-|''"
  using assms by (auto simp: is_binary_def)

section \<open>What each converter returns on a well-formed formula\<close>

text \<open>
  For each converter, by induction on the formula: on a well-formed formula it returns a
  formula, which is well-formed, has all its operators and constants in the target basis
  and has the truth value of the argument in every model. A second induction shows that
  a well-formed formula over the target basis is returned as it is.
\<close>

lemma to_not_and_or_spec:
  "well_formed f \<Longrightarrow>
     \<exists>g. to_not_and_or nxt f = Inr g \<and> well_formed g \<and> operators g \<subseteq> {''~'', ''&'', ''|''} \<and>
         (\<forall>m. evaluate g m = evaluate f m)"
proof (induction f)
  case (Formula0 r)
  then show ?case
    by (auto simp: Let_def next_iter_empty is_variable_p is_constant_not_variable
        is_unary_def is_binary_def is_constant_def)
next
  case (Formula1 r a)
  then show ?case
    by (auto simp: is_unary_not_other is_unary_def is_binary_def is_constant_def)
next
  case (Formula2 r a b)
  then obtain a' b' where
    a: "to_not_and_or nxt a = Inr a'" "well_formed a'" "operators a' \<subseteq> {''~'', ''&'', ''|''}"
       "\<And>m. evaluate a' m = evaluate a m"
    and b: "to_not_and_or nxt b = Inr b'" "well_formed b'" "operators b' \<subseteq> {''~'', ''&'', ''|''}"
       "\<And>m. evaluate b' m = evaluate b m"
    by auto
  from Formula2.prems have r: "is_binary r" by simp
  then have nr: "\<not> is_variable r" "\<not> is_constant r" "\<not> is_unary r"
    by (simp_all add: is_binary_not_other)
  from r show ?case
    using a b nr
    by (cases rule: is_binary_cases)
       (auto simp: Let_def is_unary_def is_binary_def is_constant_def)
qed

lemma to_not_and_or_fixes_basis:
  "well_formed f \<Longrightarrow> operators f \<subseteq> {''~'', ''&'', ''|''} \<Longrightarrow> to_not_and_or nxt f = Inr f"
proof (induction f)
  case (Formula0 r)
  then show ?case
    by (auto simp: is_constant_def is_constant_not_variable split: if_splits)
next
  case (Formula1 r a)
  then show ?case by (auto simp: is_unary_not_other is_unary_def)
next
  case (Formula2 r a b)
  then have a: "to_not_and_or nxt a = Inr a" and b: "to_not_and_or nxt b = Inr b" by auto
  from Formula2.prems have r: "is_binary r" "r \<in> {''~'', ''&'', ''|''}" by simp_all
  then have nr: "\<not> is_variable r" "\<not> is_constant r" "\<not> is_unary r"
    by (simp_all add: is_binary_not_other)
  from r show ?case
    using a b nr by (auto simp: is_binary_def)
qed

lemma to_not_and_spec:
  "well_formed f \<Longrightarrow>
     \<exists>g. to_not_and nxt f = Inr g \<and> well_formed g \<and> operators g \<subseteq> {''~'', ''&''} \<and>
         (\<forall>m. evaluate g m = evaluate f m)"
proof (induction f)
  case (Formula0 r)
  then show ?case
    by (auto simp: Let_def next_iter_empty is_variable_p is_constant_not_variable
        is_unary_def is_binary_def is_constant_def)
next
  case (Formula1 r a)
  then show ?case
    by (auto simp: is_unary_not_other is_unary_def is_binary_def is_constant_def)
next
  case (Formula2 r a b)
  then obtain a' b' where
    a: "to_not_and nxt a = Inr a'" "well_formed a'" "operators a' \<subseteq> {''~'', ''&''}"
       "\<And>m. evaluate a' m = evaluate a m"
    and b: "to_not_and nxt b = Inr b'" "well_formed b'" "operators b' \<subseteq> {''~'', ''&''}"
       "\<And>m. evaluate b' m = evaluate b m"
    by auto
  from Formula2.prems have r: "is_binary r" by simp
  then have nr: "\<not> is_variable r" "\<not> is_constant r" "\<not> is_unary r"
    by (simp_all add: is_binary_not_other)
  from r show ?case
    using a b nr
    by (cases rule: is_binary_cases)
       (auto simp: Let_def is_unary_def is_binary_def is_constant_def)
qed

lemma to_not_and_fixes_basis:
  "well_formed f \<Longrightarrow> operators f \<subseteq> {''~'', ''&''} \<Longrightarrow> to_not_and nxt f = Inr f"
proof (induction f)
  case (Formula0 r)
  then show ?case
    by (auto simp: is_constant_def is_constant_not_variable split: if_splits)
next
  case (Formula1 r a)
  then show ?case by (auto simp: is_unary_not_other is_unary_def)
next
  case (Formula2 r a b)
  then have a: "to_not_and nxt a = Inr a" and b: "to_not_and nxt b = Inr b" by auto
  from Formula2.prems have r: "is_binary r" "r \<in> {''~'', ''&''}" by simp_all
  then have nr: "\<not> is_variable r" "\<not> is_constant r" "\<not> is_unary r"
    by (simp_all add: is_binary_not_other)
  from r show ?case
    using a b nr by (auto simp: is_binary_def)
qed

lemma to_nand_spec:
  "well_formed f \<Longrightarrow>
     \<exists>g. to_nand nxt f = Inr g \<and> well_formed g \<and> operators g \<subseteq> {''-&''} \<and>
         (\<forall>m. evaluate g m = evaluate f m)"
proof (induction f)
  case (Formula0 r)
  then show ?case
    by (auto simp: Let_def next_iter_empty is_variable_p is_constant_not_variable
        is_unary_def is_binary_def is_constant_def nand_def)
next
  case (Formula1 r a)
  then show ?case
    by (auto simp: is_unary_not_other is_unary_def is_binary_def is_constant_def nand_def)
next
  case (Formula2 r a b)
  then obtain a' b' where
    a: "to_nand nxt a = Inr a'" "well_formed a'" "operators a' \<subseteq> {''-&''}"
       "\<And>m. evaluate a' m = evaluate a m"
    and b: "to_nand nxt b = Inr b'" "well_formed b'" "operators b' \<subseteq> {''-&''}"
       "\<And>m. evaluate b' m = evaluate b m"
    by auto
  from Formula2.prems have r: "is_binary r" by simp
  then have nr: "\<not> is_variable r" "\<not> is_constant r" "\<not> is_unary r"
    by (simp_all add: is_binary_not_other)
  from r show ?case
    using a b nr
    by (cases rule: is_binary_cases)
       (auto simp: Let_def is_unary_def is_binary_def is_constant_def nand_def)
qed

lemma to_nand_fixes_basis:
  "well_formed f \<Longrightarrow> operators f \<subseteq> {''-&''} \<Longrightarrow> to_nand nxt f = Inr f"
proof (induction f)
  case (Formula0 r)
  then show ?case
    by (auto simp: is_constant_def is_constant_not_variable split: if_splits)
next
  case (Formula1 r a)
  then show ?case by (auto simp: is_unary_not_other is_unary_def nand_def)
next
  case (Formula2 r a b)
  then have a: "to_nand nxt a = Inr a" and b: "to_nand nxt b = Inr b" by auto
  from Formula2.prems have r: "is_binary r" "r \<in> {''-&''}" by simp_all
  then have nr: "\<not> is_variable r" "\<not> is_constant r" "\<not> is_unary r"
    by (simp_all add: is_binary_not_other)
  from r show ?case
    using a b nr by (auto simp: is_binary_def nand_def)
qed

lemma to_implies_not_spec:
  "well_formed f \<Longrightarrow>
     \<exists>g. to_implies_not nxt f = Inr g \<and> well_formed g \<and> operators g \<subseteq> {''->'', ''~''} \<and>
         (\<forall>m. evaluate g m = evaluate f m)"
proof (induction f)
  case (Formula0 r)
  then show ?case
    by (auto simp: Let_def next_iter_empty is_variable_p is_constant_not_variable
        is_unary_def is_binary_def is_constant_def implies_not_make_or_def implies_not_make_and_def)
next
  case (Formula1 r a)
  then show ?case
    by (auto simp: is_unary_not_other is_unary_def is_binary_def is_constant_def implies_not_make_or_def implies_not_make_and_def)
next
  case (Formula2 r a b)
  then obtain a' b' where
    a: "to_implies_not nxt a = Inr a'" "well_formed a'" "operators a' \<subseteq> {''->'', ''~''}"
       "\<And>m. evaluate a' m = evaluate a m"
    and b: "to_implies_not nxt b = Inr b'" "well_formed b'" "operators b' \<subseteq> {''->'', ''~''}"
       "\<And>m. evaluate b' m = evaluate b m"
    by auto
  from Formula2.prems have r: "is_binary r" by simp
  then have nr: "\<not> is_variable r" "\<not> is_constant r" "\<not> is_unary r"
    by (simp_all add: is_binary_not_other)
  from r show ?case
    using a b nr
    by (cases rule: is_binary_cases)
       (auto simp: Let_def is_unary_def is_binary_def is_constant_def implies_not_make_or_def implies_not_make_and_def)
qed

lemma to_implies_not_fixes_basis:
  "well_formed f \<Longrightarrow> operators f \<subseteq> {''->'', ''~''} \<Longrightarrow> to_implies_not nxt f = Inr f"
proof (induction f)
  case (Formula0 r)
  then show ?case
    by (auto simp: is_constant_def is_constant_not_variable split: if_splits)
next
  case (Formula1 r a)
  then show ?case by (auto simp: is_unary_not_other is_unary_def implies_not_make_or_def implies_not_make_and_def)
next
  case (Formula2 r a b)
  then have a: "to_implies_not nxt a = Inr a" and b: "to_implies_not nxt b = Inr b" by auto
  from Formula2.prems have r: "is_binary r" "r \<in> {''->'', ''~''}" by simp_all
  then have nr: "\<not> is_variable r" "\<not> is_constant r" "\<not> is_unary r"
    by (simp_all add: is_binary_not_other)
  from r show ?case
    using a b nr by (auto simp: is_binary_def implies_not_make_or_def implies_not_make_and_def)
qed

lemma to_implies_false_spec:
  "well_formed f \<Longrightarrow>
     \<exists>g. to_implies_false f = Inr g \<and> well_formed g \<and> operators g \<subseteq> {''->'', ''F''} \<and>
         (\<forall>m. evaluate g m = evaluate f m)"
proof (induction f)
  case (Formula0 r)
  then show ?case
    by (auto simp: Let_def next_iter_empty is_variable_p is_constant_not_variable
        is_unary_def is_binary_def is_constant_def make_not_def implies_false_make_or_def implies_false_make_and_def)
next
  case (Formula1 r a)
  then show ?case
    by (auto simp: is_unary_not_other is_unary_def is_binary_def is_constant_def make_not_def implies_false_make_or_def implies_false_make_and_def)
next
  case (Formula2 r a b)
  then obtain a' b' where
    a: "to_implies_false a = Inr a'" "well_formed a'" "operators a' \<subseteq> {''->'', ''F''}"
       "\<And>m. evaluate a' m = evaluate a m"
    and b: "to_implies_false b = Inr b'" "well_formed b'" "operators b' \<subseteq> {''->'', ''F''}"
       "\<And>m. evaluate b' m = evaluate b m"
    by auto
  from Formula2.prems have r: "is_binary r" by simp
  then have nr: "\<not> is_variable r" "\<not> is_constant r" "\<not> is_unary r"
    by (simp_all add: is_binary_not_other)
  from r show ?case
    using a b nr
    by (cases rule: is_binary_cases)
       (auto simp: Let_def is_unary_def is_binary_def is_constant_def make_not_def implies_false_make_or_def implies_false_make_and_def)
qed

lemma to_implies_false_fixes_basis:
  "well_formed f \<Longrightarrow> operators f \<subseteq> {''->'', ''F''} \<Longrightarrow> to_implies_false f = Inr f"
proof (induction f)
  case (Formula0 r)
  then show ?case
    by (auto simp: is_constant_def is_constant_not_variable split: if_splits)
next
  case (Formula1 r a)
  then show ?case by (auto simp: is_unary_not_other is_unary_def make_not_def implies_false_make_or_def implies_false_make_and_def)
next
  case (Formula2 r a b)
  then have a: "to_implies_false a = Inr a" and b: "to_implies_false b = Inr b" by auto
  from Formula2.prems have r: "is_binary r" "r \<in> {''->'', ''F''}" by simp_all
  then have nr: "\<not> is_variable r" "\<not> is_constant r" "\<not> is_unary r"
    by (simp_all add: is_binary_not_other)
  from r show ?case
    using a b nr by (auto simp: is_binary_def make_not_def implies_false_make_or_def implies_false_make_and_def)
qed

section \<open>The recursive calls of the converters\<close>

text \<open>
  The definition of each converter comes with its call relation: \<open>to_not_and_or_rel x y\<close>
  holds when the evaluation of the converter at the argument \<open>y\<close> makes a recursive call at
  the argument \<open>x\<close>, under the conditions on the path to that call. Every such call is on a
  child of the node and leaves the choice of the set iterator as it is, a child is smaller
  than its node, and so no chain of recursive calls is infinite.
\<close>

lemma child_of_size: "child_of c f \<Longrightarrow> size c < size f"
  by (cases f) auto

lemma to_not_and_or_calls_children:
  "to_not_and_or_rel x y \<Longrightarrow> child_of (snd x) (snd y) \<and> fst x = fst y"
  by (induct rule: to_not_and_or_rel.induct) auto

lemma to_not_and_or_calls_wellfounded: "wfp to_not_and_or_rel"
proof -
  have "{(x, y). to_not_and_or_rel x y} \<subseteq> measure (\<lambda>p. size (snd p))"
    using to_not_and_or_calls_children child_of_size by (fastforce simp: measure_def inv_image_def)
  then have "wf {(x, y). to_not_and_or_rel x y}"
    by (rule wf_subset [OF wf_measure])
  then show ?thesis by (simp add: wfp_def)
qed

lemma to_not_and_calls_children:
  "to_not_and_rel x y \<Longrightarrow> child_of (snd x) (snd y) \<and> fst x = fst y"
  by (induct rule: to_not_and_rel.induct) auto

lemma to_not_and_calls_wellfounded: "wfp to_not_and_rel"
proof -
  have "{(x, y). to_not_and_rel x y} \<subseteq> measure (\<lambda>p. size (snd p))"
    using to_not_and_calls_children child_of_size by (fastforce simp: measure_def inv_image_def)
  then have "wf {(x, y). to_not_and_rel x y}"
    by (rule wf_subset [OF wf_measure])
  then show ?thesis by (simp add: wfp_def)
qed

lemma to_nand_calls_children:
  "to_nand_rel x y \<Longrightarrow> child_of (snd x) (snd y) \<and> fst x = fst y"
  by (induct rule: to_nand_rel.induct) auto

lemma to_nand_calls_wellfounded: "wfp to_nand_rel"
proof -
  have "{(x, y). to_nand_rel x y} \<subseteq> measure (\<lambda>p. size (snd p))"
    using to_nand_calls_children child_of_size by (fastforce simp: measure_def inv_image_def)
  then have "wf {(x, y). to_nand_rel x y}"
    by (rule wf_subset [OF wf_measure])
  then show ?thesis by (simp add: wfp_def)
qed

lemma to_implies_not_calls_children:
  "to_implies_not_rel x y \<Longrightarrow> child_of (snd x) (snd y) \<and> fst x = fst y"
  by (induct rule: to_implies_not_rel.induct) auto

lemma to_implies_not_calls_wellfounded: "wfp to_implies_not_rel"
proof -
  have "{(x, y). to_implies_not_rel x y} \<subseteq> measure (\<lambda>p. size (snd p))"
    using to_implies_not_calls_children child_of_size by (fastforce simp: measure_def inv_image_def)
  then have "wf {(x, y). to_implies_not_rel x y}"
    by (rule wf_subset [OF wf_measure])
  then show ?thesis by (simp add: wfp_def)
qed

lemma to_implies_false_calls_children:
  "to_implies_false_rel x y \<Longrightarrow> child_of x y"
  by (induct rule: to_implies_false_rel.induct) auto

lemma to_implies_false_calls_wellfounded: "wfp to_implies_false_rel"
proof -
  have "{(x, y). to_implies_false_rel x y} \<subseteq> measure size"
    using to_implies_false_calls_children child_of_size by (fastforce simp: measure_def inv_image_def)
  then have "wf {(x, y). to_implies_false_rel x y}"
    by (rule wf_subset [OF wf_measure])
  then show ?thesis by (simp add: wfp_def)
qed

section \<open>The claims\<close>

text \<open>The definitions that decide the class of a concrete label.\<close>

lemmas label_defs = is_binary_def is_unary_def is_constant_def is_digit_def less_eq_char_def

text \<open>
  Claim C1. On a well-formed formula each of the five converters returns a formula that
  has the truth value of the argument in every model. The model is a total assignment, so
  it covers every assignment to the variables of the argument and every way of extending
  it to a name that occurs in the result only.
\<close>

theorem converters_preserve_truth_value:
  assumes "well_formed f"
  shows "(\<exists>g. to_not_and_or nxt f = Inr g \<and> (\<forall>m. evaluate g m = evaluate f m)) \<and>
         (\<exists>g. to_not_and nxt f = Inr g \<and> (\<forall>m. evaluate g m = evaluate f m)) \<and>
         (\<exists>g. to_nand nxt f = Inr g \<and> (\<forall>m. evaluate g m = evaluate f m)) \<and>
         (\<exists>g. to_implies_not nxt f = Inr g \<and> (\<forall>m. evaluate g m = evaluate f m)) \<and>
         (\<exists>g. to_implies_false f = Inr g \<and> (\<forall>m. evaluate g m = evaluate f m))"
proof (intro conjI)
  show "\<exists>g. to_not_and_or nxt f = Inr g \<and> (\<forall>m. evaluate g m = evaluate f m)"
    using to_not_and_or_spec [OF assms, of nxt] by blast
  show "\<exists>g. to_not_and nxt f = Inr g \<and> (\<forall>m. evaluate g m = evaluate f m)"
    using to_not_and_spec [OF assms, of nxt] by blast
  show "\<exists>g. to_nand nxt f = Inr g \<and> (\<forall>m. evaluate g m = evaluate f m)"
    using to_nand_spec [OF assms, of nxt] by blast
  show "\<exists>g. to_implies_not nxt f = Inr g \<and> (\<forall>m. evaluate g m = evaluate f m)"
    using to_implies_not_spec [OF assms, of nxt] by blast
  show "\<exists>g. to_implies_false f = Inr g \<and> (\<forall>m. evaluate g m = evaluate f m)"
    using to_implies_false_spec [OF assms] by blast
qed

theorem converters_preserve_truth_value_witness:
  "well_formed
        (Formula2 ''+'' (Formula2 ''->'' (Formula0 ''q'') (Formula0 ''T'')) (Formula1 ''~'' (Formula0 ''r12''))) \<and>
   (\<exists>g. to_not_and_or (\<lambda>S. ''q'')
        (Formula2 ''+'' (Formula2 ''->'' (Formula0 ''q'') (Formula0 ''T'')) (Formula1 ''~'' (Formula0 ''r12''))) = Inr g \<and>
        (\<forall>m. evaluate g m = evaluate
        (Formula2 ''+'' (Formula2 ''->'' (Formula0 ''q'') (Formula0 ''T'')) (Formula1 ''~'' (Formula0 ''r12''))) m)) \<and>
   (\<exists>g. to_not_and (\<lambda>S. ''q'')
        (Formula2 ''+'' (Formula2 ''->'' (Formula0 ''q'') (Formula0 ''T'')) (Formula1 ''~'' (Formula0 ''r12''))) = Inr g \<and>
        (\<forall>m. evaluate g m = evaluate
        (Formula2 ''+'' (Formula2 ''->'' (Formula0 ''q'') (Formula0 ''T'')) (Formula1 ''~'' (Formula0 ''r12''))) m)) \<and>
   (\<exists>g. to_nand (\<lambda>S. ''q'')
        (Formula2 ''+'' (Formula2 ''->'' (Formula0 ''q'') (Formula0 ''T'')) (Formula1 ''~'' (Formula0 ''r12''))) = Inr g \<and>
        (\<forall>m. evaluate g m = evaluate
        (Formula2 ''+'' (Formula2 ''->'' (Formula0 ''q'') (Formula0 ''T'')) (Formula1 ''~'' (Formula0 ''r12''))) m)) \<and>
   (\<exists>g. to_implies_not (\<lambda>S. ''q'')
        (Formula2 ''+'' (Formula2 ''->'' (Formula0 ''q'') (Formula0 ''T'')) (Formula1 ''~'' (Formula0 ''r12''))) = Inr g \<and>
        (\<forall>m. evaluate g m = evaluate
        (Formula2 ''+'' (Formula2 ''->'' (Formula0 ''q'') (Formula0 ''T'')) (Formula1 ''~'' (Formula0 ''r12''))) m)) \<and>
   (\<exists>g. to_implies_false
        (Formula2 ''+'' (Formula2 ''->'' (Formula0 ''q'') (Formula0 ''T'')) (Formula1 ''~'' (Formula0 ''r12''))) = Inr g \<and>
        (\<forall>m. evaluate g m = evaluate
        (Formula2 ''+'' (Formula2 ''->'' (Formula0 ''q'') (Formula0 ''T'')) (Formula1 ''~'' (Formula0 ''r12''))) m))"
proof -
  have wf0: "well_formed
        (Formula2 ''+'' (Formula2 ''->'' (Formula0 ''q'') (Formula0 ''T'')) (Formula1 ''~'' (Formula0 ''r12'')))"
    by (simp add: label_defs)
  show ?thesis
    using wf0 converters_preserve_truth_value [OF wf0, of "\<lambda>S. ''q''"]
    by blast
qed

text \<open>
  Claim C2. On a well-formed formula each converter returns a formula all of whose
  operators and constants belong to the target basis; the results of the first four
  converters hold neither \<^verbatim>\<open>T\<close> nor \<^verbatim>\<open>F\<close>.
\<close>

theorem converters_stay_in_basis:
  assumes "well_formed f"
  shows "(\<exists>g. to_not_and_or nxt f = Inr g \<and> operators g \<subseteq> {''~'', ''&'', ''|''} \<and>
        ''T'' \<notin> operators g \<and> ''F'' \<notin> operators g) \<and>
         (\<exists>g. to_not_and nxt f = Inr g \<and> operators g \<subseteq> {''~'', ''&''} \<and>
        ''T'' \<notin> operators g \<and> ''F'' \<notin> operators g) \<and>
         (\<exists>g. to_nand nxt f = Inr g \<and> operators g \<subseteq> {''-&''} \<and>
        ''T'' \<notin> operators g \<and> ''F'' \<notin> operators g) \<and>
         (\<exists>g. to_implies_not nxt f = Inr g \<and> operators g \<subseteq> {''->'', ''~''} \<and>
        ''T'' \<notin> operators g \<and> ''F'' \<notin> operators g) \<and>
         (\<exists>g. to_implies_false f = Inr g \<and> operators g \<subseteq> {''->'', ''F''})"
proof (intro conjI)
  show "\<exists>g. to_not_and_or nxt f = Inr g \<and> operators g \<subseteq> {''~'', ''&'', ''|''} \<and> ''T'' \<notin> operators g \<and> ''F'' \<notin> operators g"
    using to_not_and_or_spec [OF assms, of nxt] by auto
  show "\<exists>g. to_not_and nxt f = Inr g \<and> operators g \<subseteq> {''~'', ''&''} \<and> ''T'' \<notin> operators g \<and> ''F'' \<notin> operators g"
    using to_not_and_spec [OF assms, of nxt] by auto
  show "\<exists>g. to_nand nxt f = Inr g \<and> operators g \<subseteq> {''-&''} \<and> ''T'' \<notin> operators g \<and> ''F'' \<notin> operators g"
    using to_nand_spec [OF assms, of nxt] by auto
  show "\<exists>g. to_implies_not nxt f = Inr g \<and> operators g \<subseteq> {''->'', ''~''} \<and> ''T'' \<notin> operators g \<and> ''F'' \<notin> operators g"
    using to_implies_not_spec [OF assms, of nxt] by auto
  show "\<exists>g. to_implies_false f = Inr g \<and> operators g \<subseteq> {''->'', ''F''}"
    using to_implies_false_spec [OF assms] by auto
qed

theorem converters_stay_in_basis_witness:
  "well_formed
        (Formula2 ''<->'' (Formula0 ''F'') (Formula2 ''-|'' (Formula0 ''x'') (Formula0 ''T''))) \<and>
   (\<exists>g. to_not_and_or (\<lambda>S. ''q'')
        (Formula2 ''<->'' (Formula0 ''F'') (Formula2 ''-|'' (Formula0 ''x'') (Formula0 ''T''))) = Inr g \<and>
        operators g \<subseteq> {''~'', ''&'', ''|''} \<and>
        ''T'' \<notin> operators g \<and> ''F'' \<notin> operators g) \<and>
   (\<exists>g. to_not_and (\<lambda>S. ''q'')
        (Formula2 ''<->'' (Formula0 ''F'') (Formula2 ''-|'' (Formula0 ''x'') (Formula0 ''T''))) = Inr g \<and>
        operators g \<subseteq> {''~'', ''&''} \<and>
        ''T'' \<notin> operators g \<and> ''F'' \<notin> operators g) \<and>
   (\<exists>g. to_nand (\<lambda>S. ''q'')
        (Formula2 ''<->'' (Formula0 ''F'') (Formula2 ''-|'' (Formula0 ''x'') (Formula0 ''T''))) = Inr g \<and>
        operators g \<subseteq> {''-&''} \<and>
        ''T'' \<notin> operators g \<and> ''F'' \<notin> operators g) \<and>
   (\<exists>g. to_implies_not (\<lambda>S. ''q'')
        (Formula2 ''<->'' (Formula0 ''F'') (Formula2 ''-|'' (Formula0 ''x'') (Formula0 ''T''))) = Inr g \<and>
        operators g \<subseteq> {''->'', ''~''} \<and>
        ''T'' \<notin> operators g \<and> ''F'' \<notin> operators g) \<and>
   (\<exists>g. to_implies_false
        (Formula2 ''<->'' (Formula0 ''F'') (Formula2 ''-|'' (Formula0 ''x'') (Formula0 ''T''))) = Inr g \<and>
        operators g \<subseteq> {''->'', ''F''})"
proof -
  have wf0: "well_formed
        (Formula2 ''<->'' (Formula0 ''F'') (Formula2 ''-|'' (Formula0 ''x'') (Formula0 ''T'')))"
    by (simp add: label_defs)
  show ?thesis
    using wf0 converters_stay_in_basis [OF wf0, of "\<lambda>S. ''q''"]
    by blast
qed

text \<open>
  Claim C3. On every well-formed formula, a bare variable and a bare constant included,
  each converter returns a formula, and that formula is well-formed. The recursion is
  structural: whenever a converter at a node makes a recursive call, the argument of the
  call is a child of that node (\<^verbatim>\<open>formula.first\<close> or \<^verbatim>\<open>formula.second\<close>), a child is strictly smaller
  than its node, and the call relation of each converter is well-founded, so every chain of
  recursive calls ends, on every argument. The depth of the interpreter's call stack is
  outside the model.
\<close>

theorem converters_return_a_formula:
  "(well_formed f \<longrightarrow>
      (\<exists>g. to_not_and_or nxt f = Inr g \<and> well_formed g) \<and>
      (\<exists>g. to_not_and nxt f = Inr g \<and> well_formed g) \<and>
      (\<exists>g. to_nand nxt f = Inr g \<and> well_formed g) \<and>
      (\<exists>g. to_implies_not nxt f = Inr g \<and> well_formed g) \<and>
      (\<exists>g. to_implies_false f = Inr g \<and> well_formed g)) \<and>
   (\<forall>x y. to_not_and_or_rel x y \<longrightarrow> child_of (snd x) (snd y) \<and> fst x = fst y) \<and>
   (\<forall>x y. to_not_and_rel x y \<longrightarrow> child_of (snd x) (snd y) \<and> fst x = fst y) \<and>
   (\<forall>x y. to_nand_rel x y \<longrightarrow> child_of (snd x) (snd y) \<and> fst x = fst y) \<and>
   (\<forall>x y. to_implies_not_rel x y \<longrightarrow> child_of (snd x) (snd y) \<and> fst x = fst y) \<and>
   (\<forall>x y. to_implies_false_rel x y \<longrightarrow> child_of x y) \<and>
   (\<forall>c d. child_of c d \<longrightarrow> size c < size d) \<and>
   wfp to_not_and_or_rel \<and> wfp to_not_and_rel \<and> wfp to_nand_rel \<and>
   wfp to_implies_not_rel \<and> wfp to_implies_false_rel"
proof (intro conjI impI allI)
  assume wf: "well_formed f"
  show "\<exists>g. to_not_and_or nxt f = Inr g \<and> well_formed g"
    using to_not_and_or_spec [OF wf, of nxt] by blast
  show "\<exists>g. to_not_and nxt f = Inr g \<and> well_formed g"
    using to_not_and_spec [OF wf, of nxt] by blast
  show "\<exists>g. to_nand nxt f = Inr g \<and> well_formed g"
    using to_nand_spec [OF wf, of nxt] by blast
  show "\<exists>g. to_implies_not nxt f = Inr g \<and> well_formed g"
    using to_implies_not_spec [OF wf, of nxt] by blast
  show "\<exists>g. to_implies_false f = Inr g \<and> well_formed g"
    using to_implies_false_spec [OF wf] by blast
next
  fix x y :: "(string set \<Rightarrow> string) \<times> formula"
  assume "to_not_and_or_rel x y"
  then show "child_of (snd x) (snd y)" "fst x = fst y"
    using to_not_and_or_calls_children by blast+
next
  fix x y :: "(string set \<Rightarrow> string) \<times> formula"
  assume "to_not_and_rel x y"
  then show "child_of (snd x) (snd y)" "fst x = fst y"
    using to_not_and_calls_children by blast+
next
  fix x y :: "(string set \<Rightarrow> string) \<times> formula"
  assume "to_nand_rel x y"
  then show "child_of (snd x) (snd y)" "fst x = fst y"
    using to_nand_calls_children by blast+
next
  fix x y :: "(string set \<Rightarrow> string) \<times> formula"
  assume "to_implies_not_rel x y"
  then show "child_of (snd x) (snd y)" "fst x = fst y"
    using to_implies_not_calls_children by blast+
next
  fix x y :: formula
  assume "to_implies_false_rel x y"
  then show "child_of x y" by (rule to_implies_false_calls_children)
next
  fix c d :: formula
  assume "child_of c d"
  then show "size c < size d" by (rule child_of_size)
qed (rule to_not_and_or_calls_wellfounded to_not_and_calls_wellfounded to_nand_calls_wellfounded
    to_implies_not_calls_wellfounded to_implies_false_calls_wellfounded)+

theorem converters_return_a_formula_witness:
  "well_formed (Formula0 ''x3'') \<and>
   (\<exists>g. to_not_and_or (\<lambda>S. ''q'') (Formula0 ''x3'') = Inr g \<and> well_formed g) \<and>
   (\<exists>g. to_not_and (\<lambda>S. ''q'') (Formula0 ''x3'') = Inr g \<and> well_formed g) \<and>
   (\<exists>g. to_nand (\<lambda>S. ''q'') (Formula0 ''x3'') = Inr g \<and> well_formed g) \<and>
   (\<exists>g. to_implies_not (\<lambda>S. ''q'') (Formula0 ''x3'') = Inr g \<and> well_formed g) \<and>
   (\<exists>g. to_implies_false (Formula0 ''x3'') = Inr g \<and> well_formed g) \<and>
   well_formed (Formula0 ''T'') \<and>
   (\<exists>g. to_not_and_or (\<lambda>S. ''q'') (Formula0 ''T'') = Inr g \<and> well_formed g) \<and>
   (\<exists>g. to_not_and (\<lambda>S. ''q'') (Formula0 ''T'') = Inr g \<and> well_formed g) \<and>
   (\<exists>g. to_nand (\<lambda>S. ''q'') (Formula0 ''T'') = Inr g \<and> well_formed g) \<and>
   (\<exists>g. to_implies_not (\<lambda>S. ''q'') (Formula0 ''T'') = Inr g \<and> well_formed g) \<and>
   (\<exists>g. to_implies_false (Formula0 ''T'') = Inr g \<and> well_formed g) \<and>
   well_formed (Formula2 ''->'' (Formula1 ''~'' (Formula0 ''s'')) (Formula0 ''F'')) \<and>
   (\<exists>g. to_not_and_or (\<lambda>S. ''q'') (Formula2 ''->'' (Formula1 ''~'' (Formula0 ''s'')) (Formula0 ''F'')) = Inr g \<and> well_formed g) \<and>
   (\<exists>g. to_not_and (\<lambda>S. ''q'') (Formula2 ''->'' (Formula1 ''~'' (Formula0 ''s'')) (Formula0 ''F'')) = Inr g \<and> well_formed g) \<and>
   (\<exists>g. to_nand (\<lambda>S. ''q'') (Formula2 ''->'' (Formula1 ''~'' (Formula0 ''s'')) (Formula0 ''F'')) = Inr g \<and> well_formed g) \<and>
   (\<exists>g. to_implies_not (\<lambda>S. ''q'') (Formula2 ''->'' (Formula1 ''~'' (Formula0 ''s'')) (Formula0 ''F'')) = Inr g \<and> well_formed g) \<and>
   (\<exists>g. to_implies_false (Formula2 ''->'' (Formula1 ''~'' (Formula0 ''s'')) (Formula0 ''F'')) = Inr g \<and> well_formed g) \<and>
   to_not_and_or_rel (\<lambda>S. ''q'', Formula1 ''~'' (Formula0 ''s''))
     (\<lambda>S. ''q'', Formula2 ''->'' (Formula1 ''~'' (Formula0 ''s'')) (Formula0 ''F'')) \<and>
   to_not_and_rel (\<lambda>S. ''q'', Formula1 ''~'' (Formula0 ''s''))
     (\<lambda>S. ''q'', Formula2 ''->'' (Formula1 ''~'' (Formula0 ''s'')) (Formula0 ''F'')) \<and>
   to_nand_rel (\<lambda>S. ''q'', Formula1 ''~'' (Formula0 ''s''))
     (\<lambda>S. ''q'', Formula2 ''->'' (Formula1 ''~'' (Formula0 ''s'')) (Formula0 ''F'')) \<and>
   to_implies_not_rel (\<lambda>S. ''q'', Formula1 ''~'' (Formula0 ''s''))
     (\<lambda>S. ''q'', Formula2 ''->'' (Formula1 ''~'' (Formula0 ''s'')) (Formula0 ''F'')) \<and>
   to_implies_false_rel (Formula1 ''~'' (Formula0 ''s''))
     (Formula2 ''->'' (Formula1 ''~'' (Formula0 ''s'')) (Formula0 ''F'')) \<and>
   child_of (Formula1 ''~'' (Formula0 ''s''))
     (Formula2 ''->'' (Formula1 ''~'' (Formula0 ''s'')) (Formula0 ''F'')) \<and>
   size (Formula1 ''~'' (Formula0 ''s'')) <
     size (Formula2 ''->'' (Formula1 ''~'' (Formula0 ''s'')) (Formula0 ''F''))"
proof -
  let ?nx = "\<lambda>S::string set. ''q''"
  let ?a = "Formula1 ''~'' (Formula0 ''s'')"
  let ?g = "Formula2 ''->'' (Formula1 ''~'' (Formula0 ''s'')) (Formula0 ''F'')"
  have wf: "well_formed (Formula0 ''x3'')" "well_formed (Formula0 ''T'')" "well_formed ?g"
    by (simp_all add: label_defs)
  have c0: "to_not_and_or_rel (?nx, ?a) (?nx, ?g)"
    by (rule to_not_and_or_rel.intros(4)) (simp_all add: label_defs)
  have c1: "to_not_and_rel (?nx, ?a) (?nx, ?g)"
    by (rule to_not_and_rel.intros(4)) (simp_all add: label_defs)
  have c2: "to_nand_rel (?nx, ?a) (?nx, ?g)"
    by (rule to_nand_rel.intros(4)) (simp_all add: label_defs)
  have c3: "to_implies_not_rel (?nx, ?a) (?nx, ?g)"
    by (rule to_implies_not_rel.intros(4)) (simp_all add: label_defs)
  have c4: "to_implies_false_rel ?a ?g"
    by (rule to_implies_false_rel.intros(4)) (simp_all add: label_defs)
  have sub: "child_of ?a ?g" "size ?a < size ?g"
    using c4 converters_return_a_formula [of ?g ?nx] by blast+
  show ?thesis
    using wf c0 c1 c2 c3 c4 sub
      converters_return_a_formula [of "Formula0 ''x3''" ?nx]
      converters_return_a_formula [of "Formula0 ''T''" ?nx]
      converters_return_a_formula [of ?g ?nx]
    by blast
qed

text \<open>
  Claim C7. On a well-formed formula no converter raises: the result is never an error,
  so in particular the trailing \<^verbatim>\<open>assert\<close> holds whenever it is reached.
\<close>

theorem converters_never_fail:
  assumes "well_formed f"
  shows "(\<forall>e. to_not_and_or nxt f \<noteq> Inl e) \<and>
         (\<forall>e. to_not_and nxt f \<noteq> Inl e) \<and>
         (\<forall>e. to_nand nxt f \<noteq> Inl e) \<and>
         (\<forall>e. to_implies_not nxt f \<noteq> Inl e) \<and>
         (\<forall>e. to_implies_false f \<noteq> Inl e)"
proof (intro conjI)
  show "\<forall>e. to_not_and_or nxt f \<noteq> Inl e"
    using to_not_and_or_spec [OF assms, of nxt] by auto
  show "\<forall>e. to_not_and nxt f \<noteq> Inl e"
    using to_not_and_spec [OF assms, of nxt] by auto
  show "\<forall>e. to_nand nxt f \<noteq> Inl e"
    using to_nand_spec [OF assms, of nxt] by auto
  show "\<forall>e. to_implies_not nxt f \<noteq> Inl e"
    using to_implies_not_spec [OF assms, of nxt] by auto
  show "\<forall>e. to_implies_false f \<noteq> Inl e"
    using to_implies_false_spec [OF assms] by auto
qed

theorem converters_never_fail_witness:
  "well_formed
        (Formula2 ''-|'' (Formula2 ''-&'' (Formula0 ''p'') (Formula0 ''z9'')) (Formula2 ''|'' (Formula0 ''F'') (Formula0 ''p''))) \<and>
   (\<forall>e. to_not_and_or (\<lambda>S. ''q'')
        (Formula2 ''-|'' (Formula2 ''-&'' (Formula0 ''p'') (Formula0 ''z9'')) (Formula2 ''|'' (Formula0 ''F'') (Formula0 ''p''))) \<noteq> Inl e) \<and>
   (\<forall>e. to_not_and (\<lambda>S. ''q'')
        (Formula2 ''-|'' (Formula2 ''-&'' (Formula0 ''p'') (Formula0 ''z9'')) (Formula2 ''|'' (Formula0 ''F'') (Formula0 ''p''))) \<noteq> Inl e) \<and>
   (\<forall>e. to_nand (\<lambda>S. ''q'')
        (Formula2 ''-|'' (Formula2 ''-&'' (Formula0 ''p'') (Formula0 ''z9'')) (Formula2 ''|'' (Formula0 ''F'') (Formula0 ''p''))) \<noteq> Inl e) \<and>
   (\<forall>e. to_implies_not (\<lambda>S. ''q'')
        (Formula2 ''-|'' (Formula2 ''-&'' (Formula0 ''p'') (Formula0 ''z9'')) (Formula2 ''|'' (Formula0 ''F'') (Formula0 ''p''))) \<noteq> Inl e) \<and>
   (\<forall>e. to_implies_false
        (Formula2 ''-|'' (Formula2 ''-&'' (Formula0 ''p'') (Formula0 ''z9'')) (Formula2 ''|'' (Formula0 ''F'') (Formula0 ''p''))) \<noteq> Inl e)"
proof -
  have wf0: "well_formed
        (Formula2 ''-|'' (Formula2 ''-&'' (Formula0 ''p'') (Formula0 ''z9'')) (Formula2 ''|'' (Formula0 ''F'') (Formula0 ''p'')))"
    by (simp add: label_defs)
  show ?thesis
    using wf0 converters_never_fail [OF wf0, of "\<lambda>S. ''q''"]
    by blast
qed

text \<open>
  Claim C9. Converting the result of a converter once more with the same converter gives
  a formula with the same truth value in every model.
\<close>

theorem converters_idempotent:
  assumes "well_formed f"
  shows "(\<exists>g. to_not_and_or nxt f = Inr g \<and> (\<exists>h. to_not_and_or nxt g = Inr h \<and> (\<forall>m. evaluate h m = evaluate g m))) \<and>
         (\<exists>g. to_not_and nxt f = Inr g \<and> (\<exists>h. to_not_and nxt g = Inr h \<and> (\<forall>m. evaluate h m = evaluate g m))) \<and>
         (\<exists>g. to_nand nxt f = Inr g \<and> (\<exists>h. to_nand nxt g = Inr h \<and> (\<forall>m. evaluate h m = evaluate g m))) \<and>
         (\<exists>g. to_implies_not nxt f = Inr g \<and> (\<exists>h. to_implies_not nxt g = Inr h \<and> (\<forall>m. evaluate h m = evaluate g m))) \<and>
         (\<exists>g. to_implies_false f = Inr g \<and> (\<exists>h. to_implies_false g = Inr h \<and> (\<forall>m. evaluate h m = evaluate g m)))"
proof (intro conjI)
  show "\<exists>g. to_not_and_or nxt f = Inr g \<and> (\<exists>h. to_not_and_or nxt g = Inr h \<and> (\<forall>m. evaluate h m = evaluate g m))"
    using to_not_and_or_spec [OF assms, of nxt] to_not_and_or_spec [of _ nxt] by metis
  show "\<exists>g. to_not_and nxt f = Inr g \<and> (\<exists>h. to_not_and nxt g = Inr h \<and> (\<forall>m. evaluate h m = evaluate g m))"
    using to_not_and_spec [OF assms, of nxt] to_not_and_spec [of _ nxt] by metis
  show "\<exists>g. to_nand nxt f = Inr g \<and> (\<exists>h. to_nand nxt g = Inr h \<and> (\<forall>m. evaluate h m = evaluate g m))"
    using to_nand_spec [OF assms, of nxt] to_nand_spec [of _ nxt] by metis
  show "\<exists>g. to_implies_not nxt f = Inr g \<and> (\<exists>h. to_implies_not nxt g = Inr h \<and> (\<forall>m. evaluate h m = evaluate g m))"
    using to_implies_not_spec [OF assms, of nxt] to_implies_not_spec [of _ nxt] by metis
  show "\<exists>g. to_implies_false f = Inr g \<and> (\<exists>h. to_implies_false g = Inr h \<and> (\<forall>m. evaluate h m = evaluate g m))"
    using to_implies_false_spec [OF assms] to_implies_false_spec by metis
qed

theorem converters_idempotent_witness:
  "well_formed
        (Formula2 ''&'' (Formula1 ''~'' (Formula0 ''T'')) (Formula2 ''<->'' (Formula0 ''s'') (Formula0 ''q''))) \<and>
   (\<exists>g. to_not_and_or (\<lambda>S. ''q'')
        (Formula2 ''&'' (Formula1 ''~'' (Formula0 ''T'')) (Formula2 ''<->'' (Formula0 ''s'') (Formula0 ''q''))) = Inr g \<and>
        (\<exists>h. to_not_and_or (\<lambda>S. ''q'') g = Inr h \<and> (\<forall>m. evaluate h m = evaluate g m))) \<and>
   (\<exists>g. to_not_and (\<lambda>S. ''q'')
        (Formula2 ''&'' (Formula1 ''~'' (Formula0 ''T'')) (Formula2 ''<->'' (Formula0 ''s'') (Formula0 ''q''))) = Inr g \<and>
        (\<exists>h. to_not_and (\<lambda>S. ''q'') g = Inr h \<and> (\<forall>m. evaluate h m = evaluate g m))) \<and>
   (\<exists>g. to_nand (\<lambda>S. ''q'')
        (Formula2 ''&'' (Formula1 ''~'' (Formula0 ''T'')) (Formula2 ''<->'' (Formula0 ''s'') (Formula0 ''q''))) = Inr g \<and>
        (\<exists>h. to_nand (\<lambda>S. ''q'') g = Inr h \<and> (\<forall>m. evaluate h m = evaluate g m))) \<and>
   (\<exists>g. to_implies_not (\<lambda>S. ''q'')
        (Formula2 ''&'' (Formula1 ''~'' (Formula0 ''T'')) (Formula2 ''<->'' (Formula0 ''s'') (Formula0 ''q''))) = Inr g \<and>
        (\<exists>h. to_implies_not (\<lambda>S. ''q'') g = Inr h \<and> (\<forall>m. evaluate h m = evaluate g m))) \<and>
   (\<exists>g. to_implies_false
        (Formula2 ''&'' (Formula1 ''~'' (Formula0 ''T'')) (Formula2 ''<->'' (Formula0 ''s'') (Formula0 ''q''))) = Inr g \<and>
        (\<exists>h. to_implies_false g = Inr h \<and> (\<forall>m. evaluate h m = evaluate g m)))"
proof -
  have wf0: "well_formed
        (Formula2 ''&'' (Formula1 ''~'' (Formula0 ''T'')) (Formula2 ''<->'' (Formula0 ''s'') (Formula0 ''q'')))"
    by (simp add: label_defs)
  show ?thesis
    using wf0 converters_idempotent [OF wf0, of "\<lambda>S. ''q''"]
    by blast
qed

text \<open>
  Claim C4 does not hold of the code. It says that the name used to encode a constant is a
  variable of the original formula whenever that formula has one. Each of the four
  converters computes \<^verbatim>\<open>v = next(iter(formula.variables()), 'p')\<close> at every node of the
  recursion, on the node at hand, and uses the name only where that node is a constant. The
  variable set of a constant is empty, so the name is the default \<^verbatim>\<open>p\<close> every time. At
  \<^verbatim>\<open>(q&T)\<close>, whose only variable is \<^verbatim>\<open>q\<close>, all four converters encode \<^verbatim>\<open>T\<close> with \<^verbatim>\<open>p\<close>,
  whatever the set iterator would yield first.
\<close>

theorem constant_encoding_always_uses_default_name:
  "variables (Formula2 ''&'' (Formula0 ''q'') (Formula0 ''T'')) = {''q''} \<and>
   to_not_and_or nxt (Formula2 ''&'' (Formula0 ''q'') (Formula0 ''T'')) =
     Inr (Formula2 ''&'' (Formula0 ''q'')
            (Formula2 ''|'' (Formula0 ''p'') (Formula1 ''~'' (Formula0 ''p'')))) \<and>
   to_not_and nxt (Formula2 ''&'' (Formula0 ''q'') (Formula0 ''T'')) =
     Inr (Formula2 ''&'' (Formula0 ''q'')
            (Formula1 ''~'' (Formula2 ''&'' (Formula0 ''p'') (Formula1 ''~'' (Formula0 ''p''))))) \<and>
   to_nand nxt (Formula2 ''&'' (Formula0 ''q'') (Formula0 ''T'')) =
     Inr (Formula2 ''-&''
            (Formula2 ''-&'' (Formula0 ''q'')
               (Formula2 ''-&'' (Formula0 ''p'') (Formula2 ''-&'' (Formula0 ''p'') (Formula0 ''p''))))
            (Formula2 ''-&'' (Formula0 ''q'')
               (Formula2 ''-&'' (Formula0 ''p'') (Formula2 ''-&'' (Formula0 ''p'') (Formula0 ''p''))))) \<and>
   to_implies_not nxt (Formula2 ''&'' (Formula0 ''q'') (Formula0 ''T'')) =
     Inr (Formula1 ''~''
            (Formula2 ''->'' (Formula0 ''q'')
               (Formula1 ''~'' (Formula2 ''->'' (Formula0 ''p'') (Formula0 ''p'')))))"
  by (simp add: label_defs next_iter_empty nand_def implies_not_make_and_def Let_def)

theorem constant_encoding_always_uses_default_name_witness:
  "to_not_and_or (\<lambda>S. ''q'') (Formula2 ''&'' (Formula0 ''q'') (Formula0 ''T'')) =
     Inr (Formula2 ''&'' (Formula0 ''q'')
            (Formula2 ''|'' (Formula0 ''p'') (Formula1 ''~'' (Formula0 ''p'')))) \<and>
   ''p'' \<notin> variables (Formula2 ''&'' (Formula0 ''q'') (Formula0 ''T''))"
  using constant_encoding_always_uses_default_name [of "\<lambda>S. ''q''"] by simp

text \<open>
  Claim C5, amended. The claim gives the term \<^verbatim>\<open>(((a->(b->F))->F)->F)\<close>, a double negation of
  \<^verbatim>\<open>(a->(b->F))\<close>, for a conjunction. \<^verbatim>\<open>make_and\<close> of \<^verbatim>\<open>to_implies_false\<close> applies \<^verbatim>\<open>make_not\<close> once:
  for converted children \<open>a'\<close> and \<open>b'\<close> the result is \<^verbatim>\<open>((a'->(b'->F))->F)\<close>, the single
  negation of \<^verbatim>\<open>(a'->(b'->F))\<close>.
\<close>

theorem to_implies_false_and:
  assumes "to_implies_false a = Inr a'" and "to_implies_false b = Inr b'"
  shows "to_implies_false (Formula2 ''&'' a b) =
           Inr (Formula2 ''->''
                  (Formula2 ''->'' a' (Formula2 ''->'' b' (Formula0 ''F'')))
                  (Formula0 ''F''))"
  using assms by (simp add: label_defs make_not_def implies_false_make_and_def)

theorem to_implies_false_and_witness:
  "to_implies_false (Formula0 ''p'') = Inr (Formula0 ''p'') \<and>
   to_implies_false (Formula0 ''T'') = Inr (Formula2 ''->'' (Formula0 ''F'') (Formula0 ''F'')) \<and>
   to_implies_false (Formula2 ''&'' (Formula0 ''p'') (Formula0 ''T'')) =
     Inr (Formula2 ''->''
            (Formula2 ''->'' (Formula0 ''p'')
               (Formula2 ''->'' (Formula2 ''->'' (Formula0 ''F'') (Formula0 ''F'')) (Formula0 ''F'')))
            (Formula0 ''F''))"
proof -
  have a: "to_implies_false (Formula0 ''p'') = Inr (Formula0 ''p'')"
    by (simp add: label_defs)
  have b: "to_implies_false (Formula0 ''T'') = Inr (Formula2 ''->'' (Formula0 ''F'') (Formula0 ''F''))"
    by (simp add: label_defs)
  show ?thesis using a b to_implies_false_and [OF a b] by simp
qed

text \<open>
  The claim as stated fails at \<^verbatim>\<open>(p&q)\<close>: the result is not the doubly negated term.
\<close>

theorem to_implies_false_and_not_double_negation:
  "to_implies_false (Formula2 ''&'' (Formula0 ''p'') (Formula0 ''q'')) \<noteq>
     Inr (Formula2 ''->''
            (Formula2 ''->''
               (Formula2 ''->'' (Formula0 ''p'') (Formula2 ''->'' (Formula0 ''q'') (Formula0 ''F'')))
               (Formula0 ''F''))
            (Formula0 ''F''))"
  by (simp add: label_defs make_not_def implies_false_make_and_def)

text \<open>
  Claim C6, amended. The claim takes \<^verbatim>\<open>NOT_ANDab\<close> to be \<^verbatim>\<open>nand(a, b)\<close>. In \<^verbatim>\<open>to_nand\<close> it is
  \<^verbatim>\<open>nand(a_and_b, a_and_b)\<close> with \<^verbatim>\<open>a_and_b = nand(nand(a, b), nand(a, b))\<close>. With that term in
  its place the rest of the claim holds: for converted children \<open>a'\<close> and \<open>b'\<close>, the result for
  \<^verbatim>\<open><->\<close> is \<^verbatim>\<open>x = nand(a_or_b, not_a_and_b)\<close> and the result for \<^verbatim>\<open>+\<close> is \<^verbatim>\<open>nand(x, x)\<close>.
\<close>

theorem to_nand_xor_iff:
  assumes "to_nand nxt a = Inr a'" and "to_nand nxt b = Inr b'"
  shows "to_nand nxt (Formula2 ''+'' a b) =
           Inr (nand
             (nand (nand (nand a' a') (nand b' b'))
                   (nand (nand (nand a' b') (nand a' b')) (nand (nand a' b') (nand a' b'))))
             (nand (nand (nand a' a') (nand b' b'))
                   (nand (nand (nand a' b') (nand a' b')) (nand (nand a' b') (nand a' b'))))) \<and>
         to_nand nxt (Formula2 ''<->'' a b) =
           Inr (nand (nand (nand a' a') (nand b' b'))
                     (nand (nand (nand a' b') (nand a' b')) (nand (nand a' b') (nand a' b'))))"
  using assms by (simp add: label_defs Let_def)

theorem to_nand_xor_iff_witness:
  "to_nand (\<lambda>S. ''q'') (Formula0 ''p'') = Inr (Formula0 ''p'') \<and>
   to_nand (\<lambda>S. ''q'') (Formula0 ''q'') = Inr (Formula0 ''q'') \<and>
   to_nand (\<lambda>S. ''q'') (Formula2 ''<->'' (Formula0 ''p'') (Formula0 ''q'')) =
     Inr (nand (nand (nand (Formula0 ''p'') (Formula0 ''p'')) (nand (Formula0 ''q'') (Formula0 ''q'')))
               (nand (nand (nand (Formula0 ''p'') (Formula0 ''q'')) (nand (Formula0 ''p'') (Formula0 ''q'')))
                     (nand (nand (Formula0 ''p'') (Formula0 ''q'')) (nand (Formula0 ''p'') (Formula0 ''q'')))))"
proof -
  have a: "to_nand (\<lambda>S. ''q'') (Formula0 ''p'') = Inr (Formula0 ''p'')"
    by (simp add: label_defs)
  have b: "to_nand (\<lambda>S. ''q'') (Formula0 ''q'') = Inr (Formula0 ''q'')"
    by (simp add: label_defs)
  show ?thesis using a b to_nand_xor_iff [OF a b] by simp
qed

text \<open>
  The claim as stated fails at \<^verbatim>\<open>(p+q)\<close>: the result is not the term built with
  \<^verbatim>\<open>nand(p, q)\<close> for \<^verbatim>\<open>NOT_ANDab\<close>.
\<close>

theorem to_nand_xor_not_the_short_term:
  "to_nand (\<lambda>S. ''p'') (Formula2 ''+'' (Formula0 ''p'') (Formula0 ''q'')) \<noteq>
     Inr (nand
       (nand (nand (nand (Formula0 ''p'') (Formula0 ''p'')) (nand (Formula0 ''q'') (Formula0 ''q'')))
             (nand (Formula0 ''p'') (Formula0 ''q'')))
       (nand (nand (nand (Formula0 ''p'') (Formula0 ''p'')) (nand (Formula0 ''q'') (Formula0 ''q'')))
             (nand (Formula0 ''p'') (Formula0 ''q''))))"
  by (simp add: label_defs nand_def Let_def)

text \<open>
  Claim C8. \<^verbatim>\<open>to_implies_false\<close> returns \<^verbatim>\<open>F\<close> for the constant \<^verbatim>\<open>F\<close> and \<^verbatim>\<open>(F->F)\<close> for the
  constant \<^verbatim>\<open>T\<close>; that formula has no variables and is true in every model.
\<close>

theorem to_implies_false_constants:
  "to_implies_false (Formula0 ''F'') = Inr (Formula0 ''F'') \<and>
   to_implies_false (Formula0 ''T'') = Inr (Formula2 ''->'' (Formula0 ''F'') (Formula0 ''F'')) \<and>
   variables (Formula2 ''->'' (Formula0 ''F'') (Formula0 ''F'')) = {} \<and>
   (\<forall>m. evaluate (Formula2 ''->'' (Formula0 ''F'') (Formula0 ''F'')) m)"
  by (simp add: label_defs)

theorem to_implies_false_constants_witness:
  "to_implies_false (Formula0 ''T'') = Inr (Formula2 ''->'' (Formula0 ''F'') (Formula0 ''F'')) \<and>
   evaluate (Formula2 ''->'' (Formula0 ''F'') (Formula0 ''F'')) (\<lambda>v. False) \<and>
   evaluate (Formula2 ''->'' (Formula0 ''F'') (Formula0 ''F'')) (\<lambda>v. True)"
  using to_implies_false_constants by blast

text \<open>
  Claim C10. A well-formed formula whose operators and constants all belong to the target
  basis of a converter is returned by that converter as it is. The set
  \<^verbatim>\<open>operators\<close> holds the constants of the formula too, so only the basis of
  \<^verbatim>\<open>to_implies_false\<close> admits a constant, and only \<^verbatim>\<open>F\<close>.
\<close>

theorem converters_are_identity_on_their_basis:
  assumes "well_formed f"
  shows "(operators f \<subseteq> {''~'', ''&'', ''|''} \<longrightarrow> to_not_and_or nxt f = Inr f) \<and>
         (operators f \<subseteq> {''~'', ''&''} \<longrightarrow> to_not_and nxt f = Inr f) \<and>
         (operators f \<subseteq> {''-&''} \<longrightarrow> to_nand nxt f = Inr f) \<and>
         (operators f \<subseteq> {''->'', ''~''} \<longrightarrow> to_implies_not nxt f = Inr f) \<and>
         (operators f \<subseteq> {''->'', ''F''} \<longrightarrow> to_implies_false f = Inr f)"
  using assms
  by (simp add: to_not_and_or_fixes_basis to_not_and_fixes_basis to_nand_fixes_basis
      to_implies_not_fixes_basis to_implies_false_fixes_basis)

theorem converters_are_identity_on_their_basis_witness:
  "to_not_and_or (\<lambda>S. ''q'')
     (Formula2 ''|'' (Formula1 ''~'' (Formula0 ''p'')) (Formula2 ''&'' (Formula0 ''p'') (Formula0 ''q''))) =
     Inr (Formula2 ''|'' (Formula1 ''~'' (Formula0 ''p'')) (Formula2 ''&'' (Formula0 ''p'') (Formula0 ''q''))) \<and>
   to_not_and (\<lambda>S. ''q'') (Formula1 ''~'' (Formula2 ''&'' (Formula0 ''p'') (Formula0 ''q''))) =
     Inr (Formula1 ''~'' (Formula2 ''&'' (Formula0 ''p'') (Formula0 ''q''))) \<and>
   to_nand (\<lambda>S. ''q'') (Formula2 ''-&'' (Formula0 ''p'') (Formula2 ''-&'' (Formula0 ''q'') (Formula0 ''q''))) =
     Inr (Formula2 ''-&'' (Formula0 ''p'') (Formula2 ''-&'' (Formula0 ''q'') (Formula0 ''q''))) \<and>
   to_implies_not (\<lambda>S. ''q'') (Formula2 ''->'' (Formula1 ''~'' (Formula0 ''p'')) (Formula0 ''q'')) =
     Inr (Formula2 ''->'' (Formula1 ''~'' (Formula0 ''p'')) (Formula0 ''q'')) \<and>
   to_implies_false (Formula2 ''->'' (Formula0 ''p'') (Formula0 ''F'')) =
     Inr (Formula2 ''->'' (Formula0 ''p'') (Formula0 ''F''))"
proof -
  let ?f1 = "Formula2 ''|'' (Formula1 ''~'' (Formula0 ''p'')) (Formula2 ''&'' (Formula0 ''p'') (Formula0 ''q''))"
  let ?f2 = "Formula1 ''~'' (Formula2 ''&'' (Formula0 ''p'') (Formula0 ''q''))"
  let ?f3 = "Formula2 ''-&'' (Formula0 ''p'') (Formula2 ''-&'' (Formula0 ''q'') (Formula0 ''q''))"
  let ?f4 = "Formula2 ''->'' (Formula1 ''~'' (Formula0 ''p'')) (Formula0 ''q'')"
  let ?f5 = "Formula2 ''->'' (Formula0 ''p'') (Formula0 ''F'')"
  have wf: "well_formed ?f1" "well_formed ?f2" "well_formed ?f3" "well_formed ?f4" "well_formed ?f5"
    by (simp_all add: label_defs)
  have ops: "operators ?f1 \<subseteq> {''~'', ''&'', ''|''}" "operators ?f2 \<subseteq> {''~'', ''&''}"
    "operators ?f3 \<subseteq> {''-&''}" "operators ?f4 \<subseteq> {''->'', ''~''}" "operators ?f5 \<subseteq> {''->'', ''F''}"
    by (simp_all add: label_defs)
  have "to_not_and_or (\<lambda>S. ''q'') ?f1 = Inr ?f1"
    using ops(1) converters_are_identity_on_their_basis [OF wf(1), of "\<lambda>S. ''q''"] by blast
  moreover have "to_not_and (\<lambda>S. ''q'') ?f2 = Inr ?f2"
    using ops(2) converters_are_identity_on_their_basis [OF wf(2), of "\<lambda>S. ''q''"] by blast
  moreover have "to_nand (\<lambda>S. ''q'') ?f3 = Inr ?f3"
    using ops(3) converters_are_identity_on_their_basis [OF wf(3), of "\<lambda>S. ''q''"] by blast
  moreover have "to_implies_not (\<lambda>S. ''q'') ?f4 = Inr ?f4"
    using ops(4) converters_are_identity_on_their_basis [OF wf(4), of "\<lambda>S. ''q''"] by blast
  moreover have "to_implies_false ?f5 = Inr ?f5"
    using ops(5) converters_are_identity_on_their_basis [OF wf(5)] by blast
  ultimately show ?thesis by blast
qed

text \<open>
  The error branches of the model are not idle: a binary node whose label is outside the
  grammar reaches the failing \<^verbatim>\<open>assert\<close>, and a unary node with a binary label fails on
  \<^verbatim>\<open>formula.second\<close>.
\<close>

lemma assertion_fails_on_unknown_binary_label:
  "to_not_and_or nxt (Formula2 ''^'' (Formula0 ''p'') (Formula0 ''q'')) = Inl AssertionError"
  by (simp add: label_defs)

lemma attribute_error_on_missing_child:
  "to_not_and_or nxt (Formula1 ''&'' (Formula0 ''q'')) = Inl AttributeError"
  by (simp add: label_defs)

end
